theory Spec2Isabelle
  imports Main
begin

section \<open>P2PClient (talk/owt/sdk/p2p/p2pclient.cc)\<close>

text \<open>
  A shallow embedding of \<^verbatim>\<open>owt::p2p::P2PClient\<close>. The client is a record of its members;
  every method is a function from the client to the client after the call. Shared pointers
  to peer connection channels are addresses into a store of channel objects
  (\<open>channels\<close>), so that a channel erased from \<open>pc_channels\<close> can still be inspected. Calls
  into collaborators whose code is outside this file (the signaling channel, the peer
  connection channels, the user's callbacks and observers) are appended to \<open>calls\<close>, in
  program order. The two task queues are lists of pending tasks.

  The detached thread of \<^verbatim>\<open>OnStopped\<close> and the tasks of both queues are run atomically:
  the model is sequential, the mutexes are not modelled. The configuration a new channel
  is constructed with (\<^verbatim>\<open>GetPeerConnectionChannelConfiguration\<close>) is left out: no
  operation of the client reads it back.
\<close>

subsection \<open>Strings\<close>

text \<open>\<^verbatim>\<open>std::string::compare\<close>: the sign of the lexicographic comparison by unsigned
  character value, a proper prefix being smaller.\<close>

fun string_compare :: "string \<Rightarrow> string \<Rightarrow> int" where
  "string_compare [] [] = 0"
| "string_compare [] (y # ys) = - 1"
| "string_compare (x # xs) [] = 1"
| "string_compare (x # xs) (y # ys) =
     (if (of_char x :: nat) < of_char y then - 1
      else if (of_char y :: nat) < of_char x then 1
      else string_compare xs ys)"

fun starts_with :: "string \<Rightarrow> string \<Rightarrow> bool" where
  "starts_with [] ys = True"
| "starts_with (x # xs) [] = False"
| "starts_with (x # xs) (y # ys) = (x = y \<and> starts_with xs ys)"

text \<open>\<^verbatim>\<open>message.find(pat) != std::string::npos\<close>\<close>

fun str_find :: "string \<Rightarrow> string \<Rightarrow> bool" where
  "str_find pat [] = starts_with pat []"
| "str_find pat (c # cs) = (starts_with pat (c # cs) \<or> str_find pat cs)"

text \<open>The two literals the dispatcher searches for: \<^verbatim>\<open>"type":"offer"\<close> and
  \<^verbatim>\<open>"type":"chat-closed"\<close>, double quotes included.\<close>

definition type_offer :: string where
  "type_offer = [CHR 0x22] @ ''type'' @ [CHR 0x22] @ '':'' @ [CHR 0x22] @ ''offer'' @ [CHR 0x22]"

definition type_chat_closed :: string where
  "type_chat_closed =
     [CHR 0x22] @ ''type'' @ [CHR 0x22] @ '':'' @ [CHR 0x22] @ ''chat-closed'' @ [CHR 0x22]"

text \<open>\<^verbatim>\<open>enum IcsP2PError\<close>\<close>

definition kWebrtcIceGatheringPolicyUnsupported :: int where
  "kWebrtcIceGatheringPolicyUnsupported = 2601"

subsection \<open>Callbacks, exceptions, calls and tasks\<close>

text \<open>A \<^verbatim>\<open>std::function\<close> or a \<^verbatim>\<open>shared_ptr<LocalStream>\<close> of the caller is known by
  its identity; \<open>None\<close> is the null function or pointer.\<close>

type_synonym callback = nat
type_synonym stream = nat
type_synonym observer = nat
type_synonym pcc = nat

datatype ExceptionType =
  kP2PClientRemoteNotExisted | kP2PClientRemoteNotAllowed | kP2PClientInvalidState

datatype Exception = Exception ExceptionType string

text \<open>The success continuation that \<^verbatim>\<open>Publish\<close> hands to the channel: the lambda that
  captures \<^verbatim>\<open>on_success\<close>, \<^verbatim>\<open>target_id\<close> and \<^verbatim>\<open>stream\<close> (and the weak pointer to the
  client).\<close>

datatype publish_continuation = PublishContinuation "callback option" string "stream option"

datatype observer_event =
  ServerDisconnected
| MessageReceived string string
| StreamAdded stream
| PeerConnectionClosed string

datatype call =
  SigConnect string string "callback option" "callback option"
| SigDisconnect "callback option" "callback option"
| SigSendMessage string string "callback option" "callback option"
| PccPublish pcc "stream option" "publish_continuation option" "callback option"
| PccSend pcc string bool "callback option" "callback option"
| PccStop pcc "callback option" "callback option"
| PccUnpublish pcc "stream option" "callback option" "callback option"
| PccGetConnectionStats pcc "callback option" "callback option"
| PccOnIncomingSignalingMessage pcc string
| CallFailure callback Exception
| CallConnectSuccess callback string
| CallPublishSuccess callback string "stream option"
| CallObserver observer observer_event

text \<open>A task posted to \<^verbatim>\<open>event_queue_\<close>: the closure's captured values.\<close>

datatype event_task =
  FailureTask callback Exception
| PublicationTask callback string "stream option"
| ObserverTask observer observer_event

text \<open>Undefined behaviour the model makes explicit: a member access through a null
  \<^verbatim>\<open>shared_ptr\<close>, and \<^verbatim>\<open>vector::erase\<close> of the past-the-end iterator.\<close>

datatype fault = NullDereference | EraseEnd

subsection \<open>Peer connection channels\<close>

text \<open>
  Modelled from the spec: \<^verbatim>\<open>P2PPeerConnectionChannel\<close> (p2ppeerconnectionchannel.cc is not
  among the sources). Of a channel the client reads whether it holds a local offer, whether
  it is abandoned, and its latest publish request; it sets the abandoned flag and disables
  the sending of stop. \<^verbatim>\<open>Publish\<close> on a channel retains the request; what the other calls do
  inside the channel is not modelled, they are recorded in \<open>calls\<close>.
\<close>

record channel =
  chan_local_id :: string
  chan_remote_id :: string
  observed :: bool
  have_local_offer :: bool
  abandoned :: bool
  sending_stop_disabled :: bool
  latest_local_stream :: "stream option"
  latest_publish_success_callback :: "publish_continuation option"
  latest_publish_failure_callback :: "callback option"

definition new_channel :: "string \<Rightarrow> string \<Rightarrow> channel" where
  "new_channel local remote =
     \<lparr>chan_local_id = local, chan_remote_id = remote, observed = True,
      have_local_offer = False, abandoned = False, sending_stop_disabled = False,
      latest_local_stream = None, latest_publish_success_callback = None,
      latest_publish_failure_callback = None\<rparr>"

definition HaveLocalOffer :: "channel \<Rightarrow> bool" where
  "HaveLocalOffer c = have_local_offer c"

definition IsAbandoned :: "channel \<Rightarrow> bool" where
  "IsAbandoned c = abandoned c"

definition SetAbandoned :: "channel \<Rightarrow> channel" where
  "SetAbandoned c = c\<lparr>abandoned := True\<rparr>"

definition DisableSendingStop :: "channel \<Rightarrow> channel" where
  "DisableSendingStop c = c\<lparr>sending_stop_disabled := True\<rparr>"

definition retain_publish ::
  "stream option \<Rightarrow> publish_continuation option \<Rightarrow> callback option \<Rightarrow> channel \<Rightarrow> channel" where
  "retain_publish st on_success on_failure c =
     c\<lparr>latest_local_stream := st, latest_publish_success_callback := on_success,
       latest_publish_failure_callback := on_failure\<rparr>"

subsection \<open>The client\<close>

record p2p_client =
  local_id :: string
  allowed_remote_ids :: "string list"
  pc_channels :: "string \<rightharpoonup> pcc"
  removed_pc_channels :: "pcc option list"
  observers :: "observer list"
  channels :: "channel list"
  calls :: "call list"
  event_queue :: "event_task list"
  signaling_queue :: "(string \<times> string) list"
  expired :: bool
  cloud_gaming :: bool

text \<open>The client after its constructor: \<open>expired\<close> is what \<^verbatim>\<open>weak_this.lock()\<close> finds
  (true once the last owner has released the client), \<open>cloud_gaming\<close> is the build flag
  \<^verbatim>\<open>OWT_CLOUD_GAMING\<close>.\<close>

definition P2PClient :: "bool \<Rightarrow> p2p_client" where
  "P2PClient gaming =
     \<lparr>local_id = [], allowed_remote_ids = [], pc_channels = Map.empty,
      removed_pc_channels = [], observers = [], channels = [], calls = [],
      event_queue = [], signaling_queue = [], expired = False, cloud_gaming = gaming\<rparr>"

definition record_call :: "call \<Rightarrow> p2p_client \<Rightarrow> p2p_client" where
  "record_call c s = s\<lparr>calls := calls s @ [c]\<rparr>"

definition update_channel :: "pcc \<Rightarrow> (channel \<Rightarrow> channel) \<Rightarrow> p2p_client \<Rightarrow> p2p_client" where
  "update_channel a f s = s\<lparr>channels := (channels s)[a := f (channels s ! a)]\<rparr>"

definition erase_channel :: "string \<Rightarrow> p2p_client \<Rightarrow> p2p_client" where
  "erase_channel target_id s = s\<lparr>pc_channels := (pc_channels s)(target_id := None)\<rparr>"

text \<open>\<^verbatim>\<open>if (on_failure) event_queue_->PostTask([on_failure] { on_failure(e); })\<close>\<close>

definition post_failure :: "callback option \<Rightarrow> Exception \<Rightarrow> p2p_client \<Rightarrow> p2p_client" where
  "post_failure on_failure e s =
     (case on_failure of
        None \<Rightarrow> s
      | Some f \<Rightarrow> s\<lparr>event_queue := event_queue s @ [FailureTask f e]\<rparr>)"

text \<open>What a task of the event queue does when the queue runs it.\<close>

fun run_event_task :: "event_task \<Rightarrow> call" where
  "run_event_task (FailureTask f e) = CallFailure f e"
| "run_event_task (PublicationTask f target st) = CallPublishSuccess f target st"
| "run_event_task (ObserverTask ob ev) = CallObserver ob ev"

definition IsPeerConnectionChannelCreated :: "string \<Rightarrow> p2p_client \<Rightarrow> bool" where
  "IsPeerConnectionChannelCreated target_id s =
     (if pc_channels s target_id = None then False else True)"

text \<open>\<^verbatim>\<open>GetPeerConnectionChannel(target_id, replace)\<close>: the channel it returns and the client
  afterwards. A registered channel that is abandoned (or any, when \<open>replace\<close>) is erased and
  told not to send stop; a new channel is then created, observed by the client and
  registered. The source calls \<^verbatim>\<open>DisableSendingStop\<close> through the iterator after the erase;
  the model applies it to the channel object the entry pointed to.\<close>

definition GetPeerConnectionChannel :: "string \<Rightarrow> bool \<Rightarrow> p2p_client \<Rightarrow> pcc \<times> p2p_client" where
  "GetPeerConnectionChannel target_id replace s =
     (let (pcc_it, s1) =
        (case pc_channels s target_id of
           Some a \<Rightarrow>
             if replace \<or> IsAbandoned (channels s ! a)
             then (None, update_channel a DisableSendingStop (erase_channel target_id s))
             else (Some a, s)
         | None \<Rightarrow> (None, s))
      in case pcc_it of
           None \<Rightarrow>
             (let a = length (channels s1) in
              (a, s1\<lparr>channels := channels s1 @ [new_channel (local_id s1) target_id],
                     pc_channels := (pc_channels s1)(target_id \<mapsto> a)\<rparr>))
         | Some a \<Rightarrow> (a, s1))"

text \<open>Calls on a channel.\<close>

definition pcc_Publish ::
  "pcc \<Rightarrow> stream option \<Rightarrow> publish_continuation option \<Rightarrow> callback option \<Rightarrow>
   p2p_client \<Rightarrow> p2p_client" where
  "pcc_Publish a st on_success on_failure s =
     record_call (PccPublish a st on_success on_failure)
       (update_channel a (retain_publish st on_success on_failure) s)"

definition pcc_SetAbandoned :: "pcc \<Rightarrow> p2p_client \<Rightarrow> p2p_client" where
  "pcc_SetAbandoned a s = update_channel a SetAbandoned s"

subsection \<open>The public interface\<close>

definition SetLocalId :: "string \<Rightarrow> p2p_client \<Rightarrow> p2p_client" where
  "SetLocalId lid s = s\<lparr>local_id := lid\<rparr>"

definition Connect ::
  "string \<Rightarrow> string \<Rightarrow> callback option \<Rightarrow> callback option \<Rightarrow> p2p_client \<Rightarrow> p2p_client" where
  "Connect host token on_success on_failure s =
     record_call (SigConnect host token on_success on_failure) s"

text \<open>The success continuation \<^verbatim>\<open>Connect\<close> hands to the signaling channel, run with the
  user id the server returned.\<close>

definition Connect_continuation :: "callback option \<Rightarrow> string \<Rightarrow> p2p_client \<Rightarrow> p2p_client" where
  "Connect_continuation on_success user_id s =
     (let s1 = (if \<not> expired s then SetLocalId user_id s else s)
      in case on_success of
           None \<Rightarrow> s1
         | Some f \<Rightarrow> record_call (CallConnectSuccess f user_id) s1)"

definition Disconnect :: "callback option \<Rightarrow> callback option \<Rightarrow> p2p_client \<Rightarrow> p2p_client" where
  "Disconnect on_success on_failure s = record_call (SigDisconnect on_success on_failure) s"

definition AddAllowedRemoteId :: "string \<Rightarrow> p2p_client \<Rightarrow> p2p_client" where
  "AddAllowedRemoteId target_id s =
     (if target_id \<in> set (allowed_remote_ids s) then s
      else s\<lparr>allowed_remote_ids := allowed_remote_ids s @ [target_id]\<rparr>)"

definition Stop ::
  "string \<Rightarrow> callback option \<Rightarrow> callback option \<Rightarrow> p2p_client \<Rightarrow> p2p_client" where
  "Stop target_id on_success on_failure s =
     (if \<not> IsPeerConnectionChannelCreated target_id s
      then post_failure on_failure
             (Exception kP2PClientInvalidState ''Non-existed chat need not be stopped.'') s
      else
        (let (a, s1) = GetPeerConnectionChannel target_id False s;
             s2 = record_call (PccStop a on_success on_failure) s1
         in erase_channel target_id s2))"

definition RemoveAllowedRemoteId ::
  "string \<Rightarrow> callback option \<Rightarrow> callback option \<Rightarrow> p2p_client \<Rightarrow> p2p_client" where
  "RemoveAllowedRemoteId target_id on_success on_failure s =
     (if target_id \<notin> set (allowed_remote_ids s)
      then post_failure on_failure
             (Exception kP2PClientRemoteNotExisted ''Trying to delete non-existed remote id.'') s
      else
        Stop target_id on_success on_failure
          (s\<lparr>allowed_remote_ids := removeAll target_id (allowed_remote_ids s)\<rparr>))"

definition Publish ::
  "string \<Rightarrow> stream option \<Rightarrow> callback option \<Rightarrow> callback option \<Rightarrow> p2p_client \<Rightarrow> p2p_client" where
  "Publish target_id st on_success on_failure s =
     (if target_id \<notin> set (allowed_remote_ids s)
      then post_failure on_failure
             (Exception kP2PClientRemoteNotAllowed
                ''Publishing a stream cannot be done since the remote user is not allowed.'') s
      else
        (let (a, s1) = GetPeerConnectionChannel target_id False s
         in pcc_Publish a st (Some (PublishContinuation on_success target_id st)) on_failure s1))"

text \<open>The continuation \<^verbatim>\<open>Publish\<close> hands to the channel, run when the channel reports
  success.\<close>

definition Publish_continuation :: "publish_continuation \<Rightarrow> p2p_client \<Rightarrow> p2p_client" where
  "Publish_continuation k s =
     (case k of
        PublishContinuation on_success target_id st \<Rightarrow>
          (case on_success of
             None \<Rightarrow> s
           | Some f \<Rightarrow>
               if expired s then s
               else s\<lparr>event_queue := event_queue s @ [PublicationTask f target_id st]\<rparr>))"

definition Send5 ::
  "string \<Rightarrow> string \<Rightarrow> bool \<Rightarrow> callback option \<Rightarrow> callback option \<Rightarrow> p2p_client \<Rightarrow> p2p_client" where
  "Send5 target_id message is_reliable on_success on_failure s =
     (if target_id \<notin> set (allowed_remote_ids s)
      then post_failure on_failure
             (Exception kP2PClientRemoteNotAllowed
                ''Sending a message cannot be done since the remote user is not allowed.'') s
      else
        (let (a, s1) = GetPeerConnectionChannel target_id False s
         in record_call (PccSend a message is_reliable on_success on_failure) s1))"

definition Send ::
  "string \<Rightarrow> string \<Rightarrow> callback option \<Rightarrow> callback option \<Rightarrow> p2p_client \<Rightarrow> p2p_client" where
  "Send target_id message on_success on_failure s =
     Send5 target_id message True on_success on_failure s"

text \<open>Both overloads of \<^verbatim>\<open>GetConnectionStats\<close> have this body; they differ in the type of
  the success callback only.\<close>

definition GetConnectionStats ::
  "string \<Rightarrow> callback option \<Rightarrow> callback option \<Rightarrow> p2p_client \<Rightarrow> p2p_client" where
  "GetConnectionStats target_id on_success on_failure s =
     (if \<not> IsPeerConnectionChannelCreated target_id s
      then post_failure on_failure
             (Exception kP2PClientInvalidState
                ''Non-existed peer connection cannot provide stats.'') s
      else
        (let (a, s1) = GetPeerConnectionChannel target_id False s
         in record_call (PccGetConnectionStats a on_success on_failure) s1))"

definition Unpublish ::
  "string \<Rightarrow> stream option \<Rightarrow> callback option \<Rightarrow> callback option \<Rightarrow> p2p_client \<Rightarrow> p2p_client" where
  "Unpublish target_id st on_success on_failure s =
     (if \<not> IsPeerConnectionChannelCreated target_id s
      then post_failure on_failure
             (Exception kP2PClientInvalidState ''Non-existed chat need not be unpublished.'') s
      else
        (let (a, s1) = GetPeerConnectionChannel target_id False s
         in record_call (PccUnpublish a st on_success on_failure) s1))"

definition SendSignalingMessage ::
  "string \<Rightarrow> string \<Rightarrow> callback option \<Rightarrow> callback option \<Rightarrow> p2p_client \<Rightarrow> p2p_client" where
  "SendSignalingMessage message remote_id on_success on_failure s =
     record_call (SigSendMessage message remote_id on_success on_failure) s"

subsection \<open>Observers\<close>

text \<open>
  Modelled from the spec: \<^verbatim>\<open>EventTrigger::OnEvent0/1/2\<close> (eventtrigger.h is not among the
  sources) posts one task per registered observer to the event queue, in registration
  order.
\<close>

definition OnEvent :: "observer_event \<Rightarrow> p2p_client \<Rightarrow> p2p_client" where
  "OnEvent ev s =
     s\<lparr>event_queue := event_queue s @ map (\<lambda>ob. ObserverTask ob ev) (observers s)\<rparr>"

definition OnServerDisconnected :: "p2p_client \<Rightarrow> p2p_client" where
  "OnServerDisconnected s = OnEvent ServerDisconnected s"

definition OnMessageReceived :: "string \<Rightarrow> string \<Rightarrow> p2p_client \<Rightarrow> p2p_client" where
  "OnMessageReceived remote_id message s = OnEvent (MessageReceived remote_id message) s"

definition OnStreamAdded :: "stream \<Rightarrow> p2p_client \<Rightarrow> p2p_client" where
  "OnStreamAdded st s = OnEvent (StreamAdded st) s"

definition AddObserver :: "observer \<Rightarrow> p2p_client \<Rightarrow> p2p_client" where
  "AddObserver ob s = s\<lparr>observers := observers s @ [ob]\<rparr>"

text \<open>\<^verbatim>\<open>std::find_if\<close> as the position of the first element that satisfies the predicate;
  the length of the list is \<^verbatim>\<open>end()\<close>.\<close>

fun find_if :: "('a \<Rightarrow> bool) \<Rightarrow> 'a list \<Rightarrow> nat" where
  "find_if P [] = 0"
| "find_if P (x # xs) = (if P x then 0 else Suc (find_if P xs))"

text \<open>\<^verbatim>\<open>vector::erase(it)\<close>: the iterator must be dereferenceable.\<close>

definition vector_erase :: "nat \<Rightarrow> 'a list \<Rightarrow> fault + 'a list" where
  "vector_erase i xs =
     (if i < length xs then Inr (take i xs @ drop (Suc i) xs) else Inl EraseEnd)"

definition RemoveObserver :: "observer \<Rightarrow> p2p_client \<Rightarrow> fault + p2p_client" where
  "RemoveObserver ob s =
     (case vector_erase (find_if (\<lambda>o'. ob = o') (observers s)) (observers s) of
        Inl e \<Rightarrow> Inl e
      | Inr obs \<Rightarrow> Inr (s\<lparr>observers := obs\<rparr>))"

text \<open>\<^verbatim>\<open>OnStopped\<close>: the body of the detached thread, then the notification of the cloud
  gaming build. \<^verbatim>\<open>pc_channels_[remote_id]\<close> is the registered channel, or a null pointer
  (inserted by \<^verbatim>\<open>operator[]\<close> and erased two lines later) when there is none.\<close>

definition OnStopped :: "string \<Rightarrow> p2p_client \<Rightarrow> p2p_client" where
  "OnStopped remote_id s =
     (let s1 = s\<lparr>removed_pc_channels := removed_pc_channels s @ [pc_channels s remote_id]\<rparr>;
          s2 = erase_channel remote_id s1
      in if cloud_gaming s2 then OnEvent (PeerConnectionClosed remote_id) s2 else s2)"

subsection \<open>Inbound signaling\<close>

definition OnSignalingMessage :: "string \<Rightarrow> string \<Rightarrow> p2p_client \<Rightarrow> p2p_client" where
  "OnSignalingMessage message remote_id s =
     s\<lparr>signaling_queue := signaling_queue s @ [(message, remote_id)]\<rparr>"

definition pcc_OnIncomingSignalingMessage :: "pcc \<Rightarrow> string \<Rightarrow> p2p_client \<Rightarrow> p2p_client" where
  "pcc_OnIncomingSignalingMessage a message s =
     record_call (PccOnIncomingSignalingMessage a message) s"

text \<open>The last two lines of the task: look the channel up (or create it) and hand it the
  message.\<close>

definition dispatch_to_pcc :: "string \<Rightarrow> string \<Rightarrow> p2p_client \<Rightarrow> p2p_client" where
  "dispatch_to_pcc message remote_id s =
     (let (a, s1) = GetPeerConnectionChannel remote_id False s
      in pcc_OnIncomingSignalingMessage a message s1)"

text \<open>The branch taken on an offer when the channel holds a local offer and the local id
  compares greater.\<close>

definition yield_to_remote_offer :: "pcc \<Rightarrow> string \<Rightarrow> string \<Rightarrow> p2p_client \<Rightarrow> p2p_client" where
  "yield_to_remote_offer a message remote_id s =
     (let st = latest_local_stream (channels s ! a);
          success_callback = latest_publish_success_callback (channels s ! a);
          failure_callback = latest_publish_failure_callback (channels s ! a);
          s1 = record_call (PccStop a None None) s;
          s2 = erase_channel remote_id s1;
          (new_pcc, s3) = GetPeerConnectionChannel remote_id False s2;
          s4 = pcc_OnIncomingSignalingMessage new_pcc message s3
      in pcc_Publish new_pcc st success_callback failure_callback s4)"

text \<open>The branch taken on a chat-closed message that parses and carries the code of an
  unsupported ICE gathering policy.\<close>

definition republish_on_new_channel :: "string \<Rightarrow> p2p_client \<Rightarrow> p2p_client" where
  "republish_on_new_channel remote_id s =
     (let (a, s1) = GetPeerConnectionChannel remote_id False s;
          st = latest_local_stream (channels s1 ! a);
          success_callback = latest_publish_success_callback (channels s1 ! a);
          failure_callback = latest_publish_failure_callback (channels s1 ! a);
          s2 = pcc_SetAbandoned a s1;
          s3 = erase_channel remote_id s2;
          (new_pcc, s4) = GetPeerConnectionChannel remote_id False s3
      in pcc_Publish new_pcc st success_callback failure_callback s4)"

text \<open>The branch taken on a chat-closed message that parses and carries any other code.\<close>

definition abandon_channel :: "string \<Rightarrow> p2p_client \<Rightarrow> p2p_client" where
  "abandon_channel remote_id s =
     (let (a, s1) = GetPeerConnectionChannel remote_id False s;
          s2 = pcc_SetAbandoned a s1
      in erase_channel remote_id s2)"

text \<open>
  The task \<^verbatim>\<open>OnSignalingMessage\<close> posts, for a client that is alive. The JSON reader
  (jsoncpp and rtc_base/strings/json.h, libraries outside the repository) is the parameter
  \<open>stop_code\<close>: \<open>stop_code message\<close> is \<open>None\<close> when \<^verbatim>\<open>reader.parse\<close> fails, and otherwise
  the value of the local variable \<^verbatim>\<open>code\<close> after the three \<^verbatim>\<open>Get...FromJsonObject\<close> calls
  (the integer read from \<^verbatim>\<open>data.code\<close>, or the initial 0).
\<close>

definition signaling_task_body ::
  "(string \<Rightarrow> int option) \<Rightarrow> string \<Rightarrow> string \<Rightarrow> p2p_client \<Rightarrow> p2p_client" where
  "signaling_task_body stop_code message remote_id that =
     (if remote_id \<notin> set (allowed_remote_ids that) then that
      else if \<not> IsPeerConnectionChannelCreated remote_id that then
        (if str_find type_chat_closed message then that
         else dispatch_to_pcc message remote_id that)
      else if str_find type_offer message then
        (let (a, s1) = GetPeerConnectionChannel remote_id False that
         in if HaveLocalOffer (channels s1 ! a) \<and> string_compare (local_id s1) remote_id > 0
            then yield_to_remote_offer a message remote_id s1
            else dispatch_to_pcc message remote_id s1)
      else if str_find type_chat_closed message then
        (case stop_code message of
           Some code \<Rightarrow>
             if code = kWebrtcIceGatheringPolicyUnsupported
             then republish_on_new_channel remote_id that
             else abandon_channel remote_id that
         | None \<Rightarrow> dispatch_to_pcc message remote_id that)
      else dispatch_to_pcc message remote_id that)"

text \<open>The task as posted: \<^verbatim>\<open>that = weak_this.lock()\<close> is null when the client has expired,
  and the first statement reads \<^verbatim>\<open>that->allowed_remote_ids_\<close>.\<close>

definition signaling_task ::
  "(string \<Rightarrow> int option) \<Rightarrow> string \<Rightarrow> string \<Rightarrow> p2p_client \<Rightarrow> fault + p2p_client" where
  "signaling_task stop_code message remote_id s =
     (if expired s then Inl NullDereference
      else Inr (signaling_task_body stop_code message remote_id s))"

subsection \<open>The queues and the operations of the client\<close>

definition run_signaling_queue :: "(string \<Rightarrow> int option) \<Rightarrow> p2p_client \<Rightarrow> fault + p2p_client" where
  "run_signaling_queue stop_code s =
     (case signaling_queue s of
        [] \<Rightarrow> Inr s
      | (message, remote_id) # q \<Rightarrow>
          signaling_task stop_code message remote_id (s\<lparr>signaling_queue := q\<rparr>))"

definition run_event_queue :: "p2p_client \<Rightarrow> p2p_client" where
  "run_event_queue s =
     (case event_queue s of
        [] \<Rightarrow> s
      | t # q \<Rightarrow> record_call (run_event_task t) (s\<lparr>event_queue := q\<rparr>))"

datatype operation =
  OpConnect string string "callback option" "callback option"
| OpConnectContinuation "callback option" string
| OpDisconnect "callback option" "callback option"
| OpAddAllowedRemoteId string
| OpRemoveAllowedRemoteId string "callback option" "callback option"
| OpPublish string "stream option" "callback option" "callback option"
| OpPublishContinuation publish_continuation
| OpSend string string "callback option" "callback option"
| OpSend5 string string bool "callback option" "callback option"
| OpStop string "callback option" "callback option"
| OpGetConnectionStats string "callback option" "callback option"
| OpUnpublish string "stream option" "callback option" "callback option"
| OpSetLocalId string
| OpOnSignalingMessage string string
| OpOnServerDisconnected
| OpSendSignalingMessage string string "callback option" "callback option"
| OpAddObserver observer
| OpRemoveObserver observer
| OpOnMessageReceived string string
| OpOnStopped string
| OpOnStreamAdded stream
| OpRunSignalingQueue
| OpRunEventQueue

fun step :: "(string \<Rightarrow> int option) \<Rightarrow> operation \<Rightarrow> p2p_client \<Rightarrow> fault + p2p_client" where
  "step j (OpConnect host token f g) s = Inr (Connect host token f g s)"
| "step j (OpConnectContinuation f user_id) s = Inr (Connect_continuation f user_id s)"
| "step j (OpDisconnect f g) s = Inr (Disconnect f g s)"
| "step j (OpAddAllowedRemoteId r) s = Inr (AddAllowedRemoteId r s)"
| "step j (OpRemoveAllowedRemoteId r f g) s = Inr (RemoveAllowedRemoteId r f g s)"
| "step j (OpPublish r st f g) s = Inr (Publish r st f g s)"
| "step j (OpPublishContinuation k) s = Inr (Publish_continuation k s)"
| "step j (OpSend r m f g) s = Inr (Send r m f g s)"
| "step j (OpSend5 r m b f g) s = Inr (Send5 r m b f g s)"
| "step j (OpStop r f g) s = Inr (Stop r f g s)"
| "step j (OpGetConnectionStats r f g) s = Inr (GetConnectionStats r f g s)"
| "step j (OpUnpublish r st f g) s = Inr (Unpublish r st f g s)"
| "step j (OpSetLocalId lid) s = Inr (SetLocalId lid s)"
| "step j (OpOnSignalingMessage m r) s = Inr (OnSignalingMessage m r s)"
| "step j OpOnServerDisconnected s = Inr (OnServerDisconnected s)"
| "step j (OpSendSignalingMessage m r f g) s = Inr (SendSignalingMessage m r f g s)"
| "step j (OpAddObserver ob) s = Inr (AddObserver ob s)"
| "step j (OpRemoveObserver ob) s = RemoveObserver ob s"
| "step j (OpOnMessageReceived r m) s = Inr (OnMessageReceived r m s)"
| "step j (OpOnStopped r) s = Inr (OnStopped r s)"
| "step j (OpOnStreamAdded st) s = Inr (OnStreamAdded st s)"
| "step j OpRunSignalingQueue s = run_signaling_queue j s"
| "step j OpRunEventQueue s = Inr (run_event_queue s)"

text \<open>A run of operations stops at the first fault.\<close>

fun run :: "(string \<Rightarrow> int option) \<Rightarrow> operation list \<Rightarrow> p2p_client \<Rightarrow> fault + p2p_client" where
  "run j [] s = Inr s"
| "run j (op # ops) s = (case step j op s of Inl e \<Rightarrow> Inl e | Inr s' \<Rightarrow> run j ops s')"

subsection \<open>Scenarios\<close>

text \<open>Concrete clients on which the theorems below are instantiated. Bob is the local
  endpoint; Alice is the remote he allows.\<close>

definition bob_allows_alice :: p2p_client where
  "bob_allows_alice = AddAllowedRemoteId ''alice'' (SetLocalId ''bob'' (P2PClient False))"

definition bob_publishes :: p2p_client where
  "bob_publishes = Publish ''alice'' (Some 1) (Some 2) (Some 3) bob_allows_alice"






definition unsupported_policy_message :: string where
  "unsupported_policy_message =
     ''{'' @ type_chat_closed @ '','' @ [CHR 0x22] @ ''data'' @ [CHR 0x22] @ '':{''
       @ [CHR 0x22] @ ''code'' @ [CHR 0x22] @ '':2601}}''"

definition truncated_chat_closed_message :: string where
  "truncated_chat_closed_message = ''{'' @ type_chat_closed"

text \<open>What the JSON reader yields on the messages of the scenarios: the code 2601 where
  the message carries it, no parse for the message cut short, and the initial 0 for the
  others.\<close>

definition scenario_reader :: "string \<Rightarrow> int option" where
  "scenario_reader message =
     (if message = unsupported_policy_message then Some 2601
      else if message = truncated_chat_closed_message then None
      else Some 0)"

subsection \<open>Predicates of the statements\<close>

fun is_OnStopped :: "operation \<Rightarrow> bool" where
  "is_OnStopped (OpOnStopped r) = True"
| "is_OnStopped _ = False"

text \<open>Every registered remote id is allowed, and every registered channel is an allocated
  object.\<close>

definition registry_inv :: "p2p_client \<Rightarrow> bool" where
  "registry_inv s =
     (\<forall>r a. pc_channels s r = Some a \<longrightarrow>
        r \<in> set (allowed_remote_ids s) \<and> a < length (channels s))"

section \<open>Looking a channel up\<close>

lemma GetPeerConnectionChannel_absent:
  "pc_channels s t = None \<Longrightarrow>
   GetPeerConnectionChannel t r s =
     (length (channels s),
      s\<lparr>channels := channels s @ [new_channel (local_id s) t],
        pc_channels := (pc_channels s)(t \<mapsto> length (channels s))\<rparr>)"
  by (simp add: GetPeerConnectionChannel_def Let_def)

lemma GetPeerConnectionChannel_live:
  "pc_channels s t = Some a \<Longrightarrow> \<not> IsAbandoned (channels s ! a) \<Longrightarrow>
   GetPeerConnectionChannel t False s = (a, s)"
  by (simp add: GetPeerConnectionChannel_def Let_def)

lemma GetPeerConnectionChannel_abandoned:
  "pc_channels s t = Some a \<Longrightarrow> IsAbandoned (channels s ! a) \<Longrightarrow>
   GetPeerConnectionChannel t False s =
     (length (channels s),
      s\<lparr>channels := (channels s)[a := DisableSendingStop (channels s ! a)]
                       @ [new_channel (local_id s) t],
        pc_channels := (pc_channels s)(t \<mapsto> length (channels s))\<rparr>)"
  by (simp add: GetPeerConnectionChannel_def update_channel_def erase_channel_def Let_def)


lemmas scenario_defs = bob_allows_alice_def bob_publishes_def P2PClient_def
  AddAllowedRemoteId_def SetLocalId_def Publish_def GetPeerConnectionChannel_def
  pcc_Publish_def record_call_def update_channel_def erase_channel_def new_channel_def
  retain_publish_def IsAbandoned_def Let_def










section \<open>Guarded delegation\<close>

text \<open>
  C3. For a target that is not in \<open>allowed_remote_ids\<close>, \<^verbatim>\<open>Publish\<close> and both \<^verbatim>\<open>Send\<close>
  overloads change nothing of the client but the event queue: a non-null \<^verbatim>\<open>on_failure\<close>
  is posted there as one task carrying \<^verbatim>\<open>kP2PClientRemoteNotAllowed\<close> (with a null
  \<^verbatim>\<open>on_failure\<close> nothing is posted). In particular no callback is called during the call
  (\<open>calls\<close> is unchanged) and no channel is registered (\<open>pc_channels\<close> is unchanged).
\<close>

theorem Publish_Send_not_allowed:
  assumes "target_id \<notin> set (allowed_remote_ids s)"
  shows "Publish target_id st on_success on_failure s =
           s\<lparr>event_queue := event_queue s @
               (case on_failure of
                  None \<Rightarrow> []
                | Some f \<Rightarrow>
                    [FailureTask f (Exception kP2PClientRemoteNotAllowed
                       ''Publishing a stream cannot be done since the remote user is not allowed.'')])\<rparr>
       \<and> Send5 target_id message is_reliable on_success on_failure s =
           s\<lparr>event_queue := event_queue s @
               (case on_failure of
                  None \<Rightarrow> []
                | Some f \<Rightarrow>
                    [FailureTask f (Exception kP2PClientRemoteNotAllowed
                       ''Sending a message cannot be done since the remote user is not allowed.'')])\<rparr>
       \<and> Send target_id message on_success on_failure s =
           Send5 target_id message True on_success on_failure s
       \<and> pc_channels (Publish target_id st on_success on_failure s) = pc_channels s
       \<and> pc_channels (Send5 target_id message is_reliable on_success on_failure s) = pc_channels s
       \<and> calls (Publish target_id st on_success on_failure s) = calls s
       \<and> calls (Send5 target_id message is_reliable on_success on_failure s) = calls s"
  using assms
  by (simp add: Publish_def Send5_def Send_def post_failure_def split: option.splits)

text \<open>Mallory is not allowed by Bob: the failure reaches the callback only when the event
  queue runs the task.\<close>

theorem Publish_Send_not_allowed_witness:
  "''mallory'' \<notin> set (allowed_remote_ids bob_allows_alice)
   \<and> event_queue (Publish ''mallory'' (Some 1) (Some 2) (Some 3) bob_allows_alice) =
       [FailureTask 3 (Exception kP2PClientRemoteNotAllowed
          ''Publishing a stream cannot be done since the remote user is not allowed.'')]
   \<and> event_queue (Send ''mallory'' ''hello'' (Some 2) (Some 3) bob_allows_alice) =
       [FailureTask 3 (Exception kP2PClientRemoteNotAllowed
          ''Sending a message cannot be done since the remote user is not allowed.'')]
   \<and> pc_channels (Publish ''mallory'' (Some 1) (Some 2) (Some 3) bob_allows_alice) ''mallory'' = None
   \<and> calls (Publish ''mallory'' (Some 1) (Some 2) (Some 3) bob_allows_alice) = []
   \<and> calls (run_event_queue (Publish ''mallory'' (Some 1) (Some 2) (Some 3) bob_allows_alice)) =
       [CallFailure 3 (Exception kP2PClientRemoteNotAllowed
          ''Publishing a stream cannot be done since the remote user is not allowed.'')]"
proof -
  have h: "''mallory'' \<notin> set (allowed_remote_ids bob_allows_alice)"
    by (simp add: bob_allows_alice_def AddAllowedRemoteId_def SetLocalId_def P2PClient_def)
  have c: "calls bob_allows_alice = [] \<and> event_queue bob_allows_alice = []
           \<and> pc_channels bob_allows_alice ''mallory'' = None"
    by (simp add: bob_allows_alice_def AddAllowedRemoteId_def SetLocalId_def P2PClient_def)
  show ?thesis
    using h c Publish_Send_not_allowed [OF h, of "Some 1" "Some 2" "Some 3" "''hello''" True]
    by (simp add: run_event_queue_def record_call_def)
qed

lemma Stop_absent:
  "pc_channels s t = None \<Longrightarrow>
   Stop t f g s =
     s\<lparr>event_queue := event_queue s @
         (case g of
            None \<Rightarrow> []
          | Some h \<Rightarrow> [FailureTask h (Exception kP2PClientInvalidState
                         ''Non-existed chat need not be stopped.'')])\<rparr>"
  by (simp add: Stop_def IsPeerConnectionChannelCreated_def post_failure_def split: option.splits)

lemma Stop_live:
  "pc_channels s t = Some a \<Longrightarrow> \<not> IsAbandoned (channels s ! a) \<Longrightarrow>
   Stop t f g s =
     s\<lparr>calls := calls s @ [PccStop a f g], pc_channels := (pc_channels s)(t := None)\<rparr>"
  by (simp add: Stop_def IsPeerConnectionChannelCreated_def GetPeerConnectionChannel_live
        record_call_def erase_channel_def)

lemma Stop_abandoned:
  "pc_channels s t = Some a \<Longrightarrow> IsAbandoned (channels s ! a) \<Longrightarrow>
   Stop t f g s =
     s\<lparr>channels := (channels s)[a := DisableSendingStop (channels s ! a)]
                       @ [new_channel (local_id s) t],
       calls := calls s @ [PccStop (length (channels s)) f g],
       pc_channels := (pc_channels s)(t := None)\<rparr>"
  by (simp add: Stop_def IsPeerConnectionChannelCreated_def GetPeerConnectionChannel_abandoned
        record_call_def erase_channel_def)

lemma Stop_pc_channels: "pc_channels (Stop t f g s) = (pc_channels s)(t := None)"
proof (cases "pc_channels s t")
  case None
  then show ?thesis by (auto simp add: Stop_absent)
next
  case (Some a)
  then show ?thesis
    by (cases "IsAbandoned (channels s ! a)") (simp_all add: Stop_live Stop_abandoned)
qed

lemma Stop_allowed_remote_ids: "allowed_remote_ids (Stop t f g s) = allowed_remote_ids s"
proof (cases "pc_channels s t")
  case None
  then show ?thesis by (simp add: Stop_absent)
next
  case (Some a)
  then show ?thesis
    by (cases "IsAbandoned (channels s ! a)") (simp_all add: Stop_live Stop_abandoned)
qed




text \<open>
  C5. \<^verbatim>\<open>RemoveAllowedRemoteId\<close> of an id that is not in \<open>allowed_remote_ids\<close> only posts
  the failure \<^verbatim>\<open>kP2PClientRemoteNotExisted\<close> to the event queue; the list is unchanged. For
  an id in the list it is \<^verbatim>\<open>Stop\<close> of that id on the client from whose list every
  occurrence of the id has been removed: afterwards the id is neither allowed nor
  registered.
\<close>

theorem RemoveAllowedRemoteId_absent_or_present:
  "(target_id \<notin> set (allowed_remote_ids s) \<longrightarrow>
      RemoveAllowedRemoteId target_id on_success on_failure s =
        s\<lparr>event_queue := event_queue s @
            (case on_failure of
               None \<Rightarrow> []
             | Some f \<Rightarrow> [FailureTask f (Exception kP2PClientRemoteNotExisted
                            ''Trying to delete non-existed remote id.'')])\<rparr>
      \<and> allowed_remote_ids (RemoveAllowedRemoteId target_id on_success on_failure s) =
          allowed_remote_ids s)
   \<and> (target_id \<in> set (allowed_remote_ids s) \<longrightarrow>
      RemoveAllowedRemoteId target_id on_success on_failure s =
        Stop target_id on_success on_failure
          (s\<lparr>allowed_remote_ids := removeAll target_id (allowed_remote_ids s)\<rparr>)
      \<and> allowed_remote_ids (RemoveAllowedRemoteId target_id on_success on_failure s) =
          removeAll target_id (allowed_remote_ids s)
      \<and> target_id \<notin> set (allowed_remote_ids (RemoveAllowedRemoteId target_id on_success on_failure s))
      \<and> pc_channels (RemoveAllowedRemoteId target_id on_success on_failure s) =
          (pc_channels s)(target_id := None))"
proof -
  have absent: "target_id \<notin> set (allowed_remote_ids s) \<Longrightarrow>
      RemoveAllowedRemoteId target_id on_success on_failure s =
        s\<lparr>event_queue := event_queue s @
            (case on_failure of
               None \<Rightarrow> []
             | Some f \<Rightarrow> [FailureTask f (Exception kP2PClientRemoteNotExisted
                            ''Trying to delete non-existed remote id.'')])\<rparr>"
    by (simp add: RemoveAllowedRemoteId_def post_failure_def split: option.splits)
  have present: "target_id \<in> set (allowed_remote_ids s) \<Longrightarrow>
      RemoveAllowedRemoteId target_id on_success on_failure s =
        Stop target_id on_success on_failure
          (s\<lparr>allowed_remote_ids := removeAll target_id (allowed_remote_ids s)\<rparr>)"
    by (simp add: RemoveAllowedRemoteId_def)
  show ?thesis
  proof (cases "target_id \<in> set (allowed_remote_ids s)")
    case True
    then show ?thesis
      using present by (simp add: Stop_allowed_remote_ids Stop_pc_channels)
  next
    case False
    then show ?thesis
      using absent by simp
  qed
qed

theorem RemoveAllowedRemoteId_absent_or_present_witness:
  "''alice'' \<in> set (allowed_remote_ids bob_publishes)
   \<and> allowed_remote_ids (RemoveAllowedRemoteId ''alice'' (Some 4) (Some 5) bob_publishes) = []
   \<and> pc_channels (RemoveAllowedRemoteId ''alice'' (Some 4) (Some 5) bob_publishes) ''alice'' = None
   \<and> calls (RemoveAllowedRemoteId ''alice'' (Some 4) (Some 5) bob_publishes) =
       [PccPublish 0 (Some 1) (Some (PublishContinuation (Some 2) ''alice'' (Some 1))) (Some 3),
        PccStop 0 (Some 4) (Some 5)]
   \<and> ''mallory'' \<notin> set (allowed_remote_ids bob_publishes)
   \<and> allowed_remote_ids (RemoveAllowedRemoteId ''mallory'' (Some 4) (Some 5) bob_publishes) =
       [''alice'']
   \<and> event_queue (RemoveAllowedRemoteId ''mallory'' (Some 4) (Some 5) bob_publishes) =
       [FailureTask 5 (Exception kP2PClientRemoteNotExisted
          ''Trying to delete non-existed remote id.'')]"
proof -
  have a: "''alice'' \<in> set (allowed_remote_ids bob_publishes)
      \<and> ''mallory'' \<notin> set (allowed_remote_ids bob_publishes)
      \<and> allowed_remote_ids bob_publishes = [''alice'']
      \<and> event_queue bob_publishes = []
      \<and> pc_channels bob_publishes ''alice'' = Some 0
      \<and> \<not> IsAbandoned (channels bob_publishes ! 0)
      \<and> calls bob_publishes =
       [PccPublish 0 (Some 1) (Some (PublishContinuation (Some 2) ''alice'' (Some 1))) (Some 3)]"
    by (simp add: scenario_defs)
  show ?thesis
    using a
      RemoveAllowedRemoteId_absent_or_present [of "''alice''" bob_publishes "Some 4" "Some 5"]
      RemoveAllowedRemoteId_absent_or_present [of "''mallory''" bob_publishes "Some 4" "Some 5"]
    by (simp add: Stop_live)
qed

text \<open>
  C6, as amended. Removing an id that is not in \<open>allowed_remote_ids\<close> leaves the list
  unchanged and attempts no teardown: \<^verbatim>\<open>Stop\<close> is not reached, no channel is called,
  \<open>pc_channels\<close> and the channels are unchanged, and the only failure posted is
  \<^verbatim>\<open>kP2PClientRemoteNotExisted\<close>.
\<close>

theorem RemoveAllowedRemoteId_absent_no_Stop:
  assumes "target_id \<notin> set (allowed_remote_ids s)"
  shows "allowed_remote_ids (RemoveAllowedRemoteId target_id on_success on_failure s) =
           allowed_remote_ids s
       \<and> calls (RemoveAllowedRemoteId target_id on_success on_failure s) = calls s
       \<and> pc_channels (RemoveAllowedRemoteId target_id on_success on_failure s) = pc_channels s
       \<and> channels (RemoveAllowedRemoteId target_id on_success on_failure s) = channels s
       \<and> event_queue (RemoveAllowedRemoteId target_id on_success on_failure s) =
           event_queue s @
             (case on_failure of
                None \<Rightarrow> []
              | Some f \<Rightarrow> [FailureTask f (Exception kP2PClientRemoteNotExisted
                             ''Trying to delete non-existed remote id.'')])"
  using assms
  by (simp add: RemoveAllowedRemoteId_def post_failure_def split: option.splits)

theorem RemoveAllowedRemoteId_absent_no_Stop_witness:
  "''mallory'' \<notin> set (allowed_remote_ids bob_publishes)
   \<and> calls (RemoveAllowedRemoteId ''mallory'' (Some 4) (Some 5) bob_publishes) =
       [PccPublish 0 (Some 1) (Some (PublishContinuation (Some 2) ''alice'' (Some 1))) (Some 3)]
   \<and> pc_channels (RemoveAllowedRemoteId ''mallory'' (Some 4) (Some 5) bob_publishes) ''alice'' =
       Some 0
   \<and> event_queue (RemoveAllowedRemoteId ''mallory'' (Some 4) (Some 5) bob_publishes) =
       [FailureTask 5 (Exception kP2PClientRemoteNotExisted
          ''Trying to delete non-existed remote id.'')]"
proof -
  have h: "''mallory'' \<notin> set (allowed_remote_ids bob_publishes)"
    by (simp add: scenario_defs)
  have a: "event_queue bob_publishes = []
      \<and> pc_channels bob_publishes ''alice'' = Some 0
      \<and> calls bob_publishes =
       [PccPublish 0 (Some 1) (Some (PublishContinuation (Some 2) ''alice'' (Some 1))) (Some 3)]"
    by (simp add: scenario_defs)
  show ?thesis
    using h a RemoveAllowedRemoteId_absent_no_Stop [OF h, of "Some 4" "Some 5"]
    by simp
qed

text \<open>
  C6 as stated fails: Mallory is not in Bob's list. \<^verbatim>\<open>Stop\<close> for Mallory would post
  \<^verbatim>\<open>kP2PClientInvalidState\<close>; the removal posts \<^verbatim>\<open>kP2PClientRemoteNotExisted\<close> and
  nothing else, so it is not a call of \<^verbatim>\<open>Stop\<close>.
\<close>

theorem RemoveAllowedRemoteId_absent_counterexample:
  "''mallory'' \<notin> set (allowed_remote_ids bob_publishes)
   \<and> event_queue (Stop ''mallory'' (Some 4) (Some 5) bob_publishes) =
       [FailureTask 5 (Exception kP2PClientInvalidState ''Non-existed chat need not be stopped.'')]
   \<and> event_queue (RemoveAllowedRemoteId ''mallory'' (Some 4) (Some 5) bob_publishes) =
       [FailureTask 5 (Exception kP2PClientRemoteNotExisted
          ''Trying to delete non-existed remote id.'')]
   \<and> RemoveAllowedRemoteId ''mallory'' (Some 4) (Some 5) bob_publishes
       \<noteq> Stop ''mallory'' (Some 4) (Some 5) bob_publishes"
proof -
  have a: "''mallory'' \<notin> set (allowed_remote_ids bob_publishes)
      \<and> event_queue bob_publishes = []
      \<and> pc_channels bob_publishes ''mallory'' = None"
    by (simp add: scenario_defs)
  have r: "event_queue (RemoveAllowedRemoteId ''mallory'' (Some 4) (Some 5) bob_publishes) =
       [FailureTask 5 (Exception kP2PClientRemoteNotExisted
          ''Trying to delete non-existed remote id.'')]"
    using a by (simp add: RemoveAllowedRemoteId_def post_failure_def)
  have s: "event_queue (Stop ''mallory'' (Some 4) (Some 5) bob_publishes) =
       [FailureTask 5 (Exception kP2PClientInvalidState ''Non-existed chat need not be stopped.'')]"
    using a by (simp add: Stop_absent)
  have "event_queue (RemoveAllowedRemoteId ''mallory'' (Some 4) (Some 5) bob_publishes)
      \<noteq> event_queue (Stop ''mallory'' (Some 4) (Some 5) bob_publishes)"
    unfolding r s by simp
  then have "RemoveAllowedRemoteId ''mallory'' (Some 4) (Some 5) bob_publishes
       \<noteq> Stop ''mallory'' (Some 4) (Some 5) bob_publishes"
    by auto
  then show ?thesis using a r s by simp
qed

section \<open>Inbound signaling\<close>


lemma dispatch_to_pcc_abandoned:
  "pc_channels s t = Some a \<Longrightarrow> IsAbandoned (channels s ! a) \<Longrightarrow>
   dispatch_to_pcc message t s =
     s\<lparr>channels := (channels s)[a := DisableSendingStop (channels s ! a)]
                       @ [new_channel (local_id s) t],
       pc_channels := (pc_channels s)(t \<mapsto> length (channels s)),
       calls := calls s @ [PccOnIncomingSignalingMessage (length (channels s)) message]\<rparr>"
  by (simp add: dispatch_to_pcc_def GetPeerConnectionChannel_abandoned
        pcc_OnIncomingSignalingMessage_def record_call_def)

lemma yield_to_remote_offer_eq:
  "yield_to_remote_offer a message t s =
     s\<lparr>channels := channels s @
         [retain_publish (latest_local_stream (channels s ! a))
            (latest_publish_success_callback (channels s ! a))
            (latest_publish_failure_callback (channels s ! a))
            (new_channel (local_id s) t)],
       pc_channels := (pc_channels s)(t \<mapsto> length (channels s)),
       calls := calls s @
         [PccStop a None None,
          PccOnIncomingSignalingMessage (length (channels s)) message,
          PccPublish (length (channels s)) (latest_local_stream (channels s ! a))
            (latest_publish_success_callback (channels s ! a))
            (latest_publish_failure_callback (channels s ! a))]\<rparr>"
  by (simp add: yield_to_remote_offer_def GetPeerConnectionChannel_absent erase_channel_def
        record_call_def pcc_OnIncomingSignalingMessage_def pcc_Publish_def update_channel_def
        Let_def)






lemma string_compare_eq: "string_compare x y = 0 \<longleftrightarrow> x = y"
  by (induction x y rule: string_compare.induct) (auto simp add: of_char_eq_iff)











section \<open>Callbacks that outlive the client\<close>

text \<open>
  C7. Of the three callbacks that hold a weak pointer to the client, the continuations of
  \<^verbatim>\<open>Connect\<close> and \<^verbatim>\<open>Publish\<close> test the locked pointer and leave an expired client
  alone. The task of \<^verbatim>\<open>OnSignalingMessage\<close> does not: on an expired client its first
  statement dereferences the null pointer.
\<close>

theorem expired_client_in_callbacks:
  "signaling_task stop_code message remote_id (s\<lparr>expired := True\<rparr>) = Inl NullDereference
   \<and> Publish_continuation k (s\<lparr>expired := True\<rparr>) = s\<lparr>expired := True\<rparr>
   \<and> Connect_continuation on_success user_id (s\<lparr>expired := True\<rparr>) =
       (case on_success of
          None \<Rightarrow> s\<lparr>expired := True\<rparr>
        | Some f \<Rightarrow> (s\<lparr>expired := True\<rparr>)\<lparr>calls := calls s @ [CallConnectSuccess f user_id]\<rparr>)"
  by (simp add: signaling_task_def Publish_continuation_def Connect_continuation_def
        record_call_def split: publish_continuation.splits option.splits)

section \<open>Observers are removed by identity\<close>

lemma find_if_less_iff: "find_if P xs < length xs \<longleftrightarrow> (\<exists>x \<in> set xs. P x)"
  by (induction xs) auto

lemma erase_found_is_remove1:
  "ob \<in> set xs \<Longrightarrow>
   take (find_if (\<lambda>o'. ob = o') xs) xs @ drop (Suc (find_if (\<lambda>o'. ob = o') xs)) xs
     = remove1 ob xs"
  by (induction xs) auto

text \<open>
  C10. \<^verbatim>\<open>RemoveObserver\<close> assumes that the observer is registered. Called with an observer
  that is in \<open>observers\<close> it erases exactly one entry, the first one that is this observer
  (the others, also later registrations of the same observer, stay in order). Called with
  an observer that is not in the list, \<^verbatim>\<open>find_if\<close> returns the past-the-end iterator and
  \<^verbatim>\<open>erase\<close> is applied to it: there is no other path, the call is a fault. Removing an
  observer right after adding it to an empty list restores the empty list.
\<close>

theorem RemoveObserver_registered_or_fault:
  "(ob \<in> set (observers s) \<longrightarrow>
      RemoveObserver ob s = Inr (s\<lparr>observers := remove1 ob (observers s)\<rparr>))
   \<and> (ob \<notin> set (observers s) \<longrightarrow> RemoveObserver ob s = Inl EraseEnd)
   \<and> RemoveObserver ob (AddObserver ob (s\<lparr>observers := []\<rparr>)) = Inr (s\<lparr>observers := []\<rparr>)"
proof -
  have found: "ob \<in> set (observers s) \<Longrightarrow>
      RemoveObserver ob s = Inr (s\<lparr>observers := remove1 ob (observers s)\<rparr>)"
    using find_if_less_iff [of "\<lambda>o'. ob = o'" "observers s"]
    by (simp add: RemoveObserver_def vector_erase_def erase_found_is_remove1)
  have missing: "ob \<notin> set (observers s) \<Longrightarrow> RemoveObserver ob s = Inl EraseEnd"
    using find_if_less_iff [of "\<lambda>o'. ob = o'" "observers s"]
    by (auto simp add: RemoveObserver_def vector_erase_def)
  have fresh:
    "RemoveObserver ob (AddObserver ob (s\<lparr>observers := []\<rparr>)) = Inr (s\<lparr>observers := []\<rparr>)"
    by (simp add: RemoveObserver_def vector_erase_def AddObserver_def)
  show ?thesis using found missing fresh by blast
qed

theorem RemoveObserver_registered_or_fault_witness:
  "RemoveObserver 1 (AddObserver 1 (AddObserver 2 (AddObserver 1 (P2PClient False))))
     = Inr ((P2PClient False)\<lparr>observers := [2, 1]\<rparr>)
   \<and> RemoveObserver 5 (AddObserver 1 (AddObserver 2 (AddObserver 1 (P2PClient False))))
     = Inl EraseEnd"
  using RemoveObserver_registered_or_fault
          [of 1 "AddObserver 1 (AddObserver 2 (AddObserver 1 (P2PClient False)))"]
        RemoveObserver_registered_or_fault
          [of 5 "AddObserver 1 (AddObserver 2 (AddObserver 1 (P2PClient False)))"]
  by (simp add: AddObserver_def P2PClient_def)

section \<open>The list of removed channels\<close>

lemma GetPeerConnectionChannel_removed:
  "GetPeerConnectionChannel t r s = (a, s1) \<Longrightarrow>
   removed_pc_channels s1 = removed_pc_channels s"
  by (auto simp add: GetPeerConnectionChannel_def update_channel_def erase_channel_def Let_def
        split: option.splits if_splits)

lemma post_failure_removed:
  "removed_pc_channels (post_failure g e s) = removed_pc_channels s"
  by (simp add: post_failure_def split: option.splits)

lemma Stop_removed: "removed_pc_channels (Stop t f g s) = removed_pc_channels s"
  by (auto simp add: Stop_def post_failure_removed record_call_def erase_channel_def
        dest: GetPeerConnectionChannel_removed split: prod.splits)

lemma signaling_task_body_removed:
  "removed_pc_channels (signaling_task_body j m r s) = removed_pc_channels s"
proof -
  have dispatch: "\<And>s. removed_pc_channels (dispatch_to_pcc m r s) = removed_pc_channels s"
    by (auto simp add: dispatch_to_pcc_def pcc_OnIncomingSignalingMessage_def record_call_def
          dest: GetPeerConnectionChannel_removed split: prod.splits)
  have yield: "\<And>a s. removed_pc_channels (yield_to_remote_offer a m r s) = removed_pc_channels s"
    by (simp add: yield_to_remote_offer_eq)
  have republish: "removed_pc_channels (republish_on_new_channel r s) = removed_pc_channels s"
    by (auto simp add: republish_on_new_channel_def pcc_Publish_def pcc_SetAbandoned_def
          record_call_def update_channel_def erase_channel_def Let_def
          dest!: GetPeerConnectionChannel_removed split: prod.splits)
  have abandon: "removed_pc_channels (abandon_channel r s) = removed_pc_channels s"
    by (auto simp add: abandon_channel_def pcc_SetAbandoned_def update_channel_def
          erase_channel_def Let_def
          dest!: GetPeerConnectionChannel_removed split: prod.splits)
  show ?thesis
    by (auto simp add: signaling_task_body_def dispatch yield republish abandon
          dest!: GetPeerConnectionChannel_removed split: prod.splits option.splits)
qed

lemma step_removed:
  "step j op s = Inr s' \<Longrightarrow>
   removed_pc_channels s' =
     removed_pc_channels s @ (case op of OpOnStopped r \<Rightarrow> [pc_channels s r] | _ \<Rightarrow> [])"
proof (cases op)
  case (OpRemoveAllowedRemoteId r f g)
  assume "step j op s = Inr s'"
  then show ?thesis
    using OpRemoveAllowedRemoteId
    by (auto simp add: RemoveAllowedRemoteId_def post_failure_removed Stop_removed)
next
  case (OpPublish r st f g)
  assume "step j op s = Inr s'"
  then show ?thesis
    using OpPublish
    by (auto simp add: Publish_def post_failure_removed pcc_Publish_def record_call_def
          update_channel_def dest!: GetPeerConnectionChannel_removed split: prod.splits)
next
  case (OpSend r m f g)
  assume "step j op s = Inr s'"
  then show ?thesis
    using OpSend
    by (auto simp add: Send_def Send5_def post_failure_removed record_call_def
          dest!: GetPeerConnectionChannel_removed split: prod.splits)
next
  case (OpSend5 r m b f g)
  assume "step j op s = Inr s'"
  then show ?thesis
    using OpSend5
    by (auto simp add: Send5_def post_failure_removed record_call_def
          dest!: GetPeerConnectionChannel_removed split: prod.splits)
next
  case (OpStop r f g)
  assume "step j op s = Inr s'"
  then show ?thesis
    using OpStop by (auto simp add: Stop_removed)
next
  case (OpGetConnectionStats r f g)
  assume "step j op s = Inr s'"
  then show ?thesis
    using OpGetConnectionStats
    by (auto simp add: GetConnectionStats_def post_failure_removed record_call_def
          dest!: GetPeerConnectionChannel_removed split: prod.splits)
next
  case (OpUnpublish r st f g)
  assume "step j op s = Inr s'"
  then show ?thesis
    using OpUnpublish
    by (auto simp add: Unpublish_def post_failure_removed record_call_def
          dest!: GetPeerConnectionChannel_removed split: prod.splits)
next
  case (OpRemoveObserver ob)
  assume "step j op s = Inr s'"
  then show ?thesis
    using OpRemoveObserver
    by (auto simp add: RemoveObserver_def split: sum.splits)
next
  case (OpOnStopped r)
  assume "step j op s = Inr s'"
  then show ?thesis
    using OpOnStopped
    by (auto simp add: OnStopped_def erase_channel_def OnEvent_def Let_def)
next
  case OpRunSignalingQueue
  assume "step j op s = Inr s'"
  then show ?thesis
    using OpRunSignalingQueue
    by (auto simp add: run_signaling_queue_def signaling_task_def signaling_task_body_removed
          split: list.splits if_splits)
next
  case OpRunEventQueue
  assume "step j op s = Inr s'"
  then show ?thesis
    using OpRunEventQueue
    by (auto simp add: run_event_queue_def record_call_def split: list.splits)
qed (auto simp add: Connect_def Connect_continuation_def Disconnect_def AddAllowedRemoteId_def
       Publish_continuation_def SetLocalId_def OnSignalingMessage_def OnServerDisconnected_def
       SendSignalingMessage_def AddObserver_def OnMessageReceived_def OnStreamAdded_def
       OnEvent_def record_call_def
       split: option.splits publish_continuation.splits)

lemma run_removed:
  "run j ops s = Inr s' \<Longrightarrow>
   \<exists>entries. removed_pc_channels s' = removed_pc_channels s @ entries
     \<and> length entries = length (filter is_OnStopped ops)"
proof (induction ops arbitrary: s)
  case Nil
  then show ?case by simp
next
  case (Cons op ops)
  from Cons.prems obtain s1 where s1: "step j op s = Inr s1" and rest: "run j ops s1 = Inr s'"
    by (auto split: sum.splits)
  from Cons.IH [OF rest] obtain entries where
    e: "removed_pc_channels s' = removed_pc_channels s1 @ entries"
       "length entries = length (filter is_OnStopped ops)"
    by blast
  have "length (case op of OpOnStopped r \<Rightarrow> [pc_channels s r] | _ \<Rightarrow> []) =
      (if is_OnStopped op then 1 else 0)"
    by (cases op) simp_all
  then show ?case
    using step_removed [OF s1] e by auto
qed

text \<open>
  C9. \<^verbatim>\<open>OnStopped\<close> appends one entry to \<open>removed_pc_channels\<close>: the channel registered
  for the remote id (a null pointer when none is registered). No operation removes an
  entry: after any run of operations the list is the old list followed by one entry per
  \<^verbatim>\<open>OnStopped\<close> of the run, so its length never decreases.
\<close>

theorem removed_pc_channels_only_grows:
  "removed_pc_channels (OnStopped remote_id s) = removed_pc_channels s @ [pc_channels s remote_id]
   \<and> (run stop_code ops s = Inr s' \<longrightarrow>
        (\<exists>entries. removed_pc_channels s' = removed_pc_channels s @ entries
           \<and> length entries = length (filter is_OnStopped ops))
        \<and> length (removed_pc_channels s) \<le> length (removed_pc_channels s'))"
proof -
  have "removed_pc_channels (OnStopped remote_id s) =
      removed_pc_channels s @ [pc_channels s remote_id]"
    by (simp add: OnStopped_def erase_channel_def OnEvent_def Let_def)
  moreover have "run stop_code ops s = Inr s' \<Longrightarrow>
      length (removed_pc_channels s) \<le> length (removed_pc_channels s')"
    using run_removed [of stop_code ops s s'] by auto
  ultimately show ?thesis
    using run_removed [of stop_code ops s s'] by blast
qed

text \<open>Alice's channel stops twice, with a \<^verbatim>\<open>Stop\<close> of Bob in between: the second entry
  is the null pointer.\<close>

theorem removed_pc_channels_only_grows_witness:
  "removed_pc_channels (OnStopped ''alice'' bob_publishes) = [Some 0]
   \<and> run scenario_reader [OpOnStopped ''alice'', OpStop ''alice'' None None, OpOnStopped ''alice'']
         bob_publishes =
       Inr (OnStopped ''alice'' (Stop ''alice'' None None (OnStopped ''alice'' bob_publishes)))
   \<and> removed_pc_channels
         (OnStopped ''alice'' (Stop ''alice'' None None (OnStopped ''alice'' bob_publishes))) =
       [Some 0, None]
   \<and> length (removed_pc_channels bob_publishes)
       \<le> length (removed_pc_channels
            (OnStopped ''alice'' (Stop ''alice'' None None (OnStopped ''alice'' bob_publishes))))"
proof -
  have start: "removed_pc_channels bob_publishes = [] \<and> pc_channels bob_publishes ''alice'' = Some 0"
    by (simp add: scenario_defs)
  have r: "run scenario_reader [OpOnStopped ''alice'', OpStop ''alice'' None None, OpOnStopped ''alice'']
         bob_publishes =
       Inr (OnStopped ''alice'' (Stop ''alice'' None None (OnStopped ''alice'' bob_publishes)))"
    by simp
  have gone: "pc_channels (Stop ''alice'' None None (OnStopped ''alice'' bob_publishes)) ''alice''
      = None"
    by (simp add: Stop_pc_channels)
  have kept: "removed_pc_channels (Stop ''alice'' None None (OnStopped ''alice'' bob_publishes))
      = removed_pc_channels (OnStopped ''alice'' bob_publishes)"
    by (simp add: Stop_removed)
  show ?thesis
    using start r gone kept
      removed_pc_channels_only_grows [of "''alice''" bob_publishes scenario_reader
        "[OpOnStopped ''alice'', OpStop ''alice'' None None, OpOnStopped ''alice'']"
        "OnStopped ''alice'' (Stop ''alice'' None None (OnStopped ''alice'' bob_publishes))"]
      removed_pc_channels_only_grows [of "''alice''"
        "Stop ''alice'' None None (OnStopped ''alice'' bob_publishes)" scenario_reader "[]"
        "Stop ''alice'' None None (OnStopped ''alice'' bob_publishes)"]
    by simp
qed

section \<open>The registry invariant\<close>

text \<open>From the constructor on, every operation keeps the registered ids allowed and the
  registered channels allocated: the two hypotheses of the theorems on inbound signaling
  hold of every client a run of operations can reach.\<close>

lemma GetPeerConnectionChannel_inv:
  assumes "GetPeerConnectionChannel t False s = (a, s1)"
    and "\<And>b. pc_channels s t = Some b \<Longrightarrow> b < length (channels s)"
  shows "allowed_remote_ids s1 = allowed_remote_ids s
       \<and> length (channels s) \<le> length (channels s1)
       \<and> pc_channels s1 = (pc_channels s)(t \<mapsto> a)
       \<and> a < length (channels s1)"
proof (cases "pc_channels s t")
  case None
  then show ?thesis
    using assms(1) by (auto simp add: GetPeerConnectionChannel_absent)
next
  case (Some b)
  show ?thesis
  proof (cases "IsAbandoned (channels s ! b)")
    case True
    then show ?thesis
      using assms(1) Some by (auto simp add: GetPeerConnectionChannel_abandoned)
  next
    case False
    then show ?thesis
      using assms Some by (auto simp add: GetPeerConnectionChannel_live)
  qed
qed

lemma registry_inv_after_lookup:
  assumes inv: "registry_inv s" and t: "t \<in> set (allowed_remote_ids s)"
    and get: "GetPeerConnectionChannel t False s = (a, s1)"
  shows "registry_inv s1"
proof -
  have "\<And>b. pc_channels s t = Some b \<Longrightarrow> b < length (channels s)"
    using inv by (simp add: registry_inv_def)
  from GetPeerConnectionChannel_inv [OF get this] show ?thesis
    using inv t by (fastforce simp add: registry_inv_def split: if_splits)
qed

lemma registry_inv_erase:
  assumes "registry_inv s"
  shows "registry_inv (erase_channel t s)"
  using assms by (simp add: registry_inv_def erase_channel_def)

lemma registry_inv_post_failure: "registry_inv (post_failure g e s) = registry_inv s"
  by (simp add: registry_inv_def post_failure_def split: option.splits)

lemma registry_inv_OnEvent: "registry_inv (OnEvent ev s) = registry_inv s"
  by (simp add: registry_inv_def OnEvent_def)

lemma registry_inv_record_call: "registry_inv (record_call c s) = registry_inv s"
  by (simp add: registry_inv_def record_call_def)

lemma registry_inv_update_channel: "registry_inv (update_channel a f s) = registry_inv s"
  by (simp add: registry_inv_def update_channel_def)

lemma registered_allowed:
  "registry_inv s \<Longrightarrow> IsPeerConnectionChannelCreated t s \<Longrightarrow> t \<in> set (allowed_remote_ids s)"
  by (cases "pc_channels s t") (auto simp add: registry_inv_def IsPeerConnectionChannelCreated_def)

lemma registry_inv_after_lookup_created:
  "registry_inv s \<Longrightarrow> IsPeerConnectionChannelCreated t s \<Longrightarrow>
   GetPeerConnectionChannel t False s = (a, s1) \<Longrightarrow> registry_inv s1"
  using registry_inv_after_lookup registered_allowed by blast

lemma registry_inv_Stop:
  assumes "\<forall>r a. pc_channels s r = Some a \<longrightarrow>
             (r \<noteq> t \<longrightarrow> r \<in> set (allowed_remote_ids s)) \<and> a < length (channels s)"
  shows "registry_inv (Stop t f g s)"
proof (cases "pc_channels s t")
  case None
  then show ?thesis
    using assms by (fastforce simp add: Stop_absent registry_inv_def split: option.splits)
next
  case (Some a)
  then show ?thesis
    using assms
    by (cases "IsAbandoned (channels s ! a)")
       (fastforce simp add: Stop_live Stop_abandoned registry_inv_def less_Suc_eq split: if_splits)+
qed

lemma registry_inv_signaling_task_body:
  assumes inv: "registry_inv s"
  shows "registry_inv (signaling_task_body j m r s)"
proof (cases "r \<in> set (allowed_remote_ids s)")
  case False
  then show ?thesis using inv by (simp add: signaling_task_body_def)
next
  case True
  have dispatch: "\<And>s. registry_inv s \<Longrightarrow> r \<in> set (allowed_remote_ids s) \<Longrightarrow>
      registry_inv (dispatch_to_pcc m r s)"
    by (auto simp add: dispatch_to_pcc_def pcc_OnIncomingSignalingMessage_def
          registry_inv_record_call
          dest: registry_inv_after_lookup split: prod.splits)
  have yield: "\<And>a s. registry_inv s \<Longrightarrow> r \<in> set (allowed_remote_ids s) \<Longrightarrow>
      registry_inv (yield_to_remote_offer a m r s)"
    by (auto simp add: yield_to_remote_offer_eq registry_inv_def less_Suc_eq)
  have abandon: "registry_inv (abandon_channel r s)"
    using inv True
    by (auto simp add: abandon_channel_def pcc_SetAbandoned_def registry_inv_update_channel
          intro!: registry_inv_erase dest: registry_inv_after_lookup split: prod.splits)
  have republish: "registry_inv (republish_on_new_channel r s)"
  proof -
    obtain a s1 where g1: "GetPeerConnectionChannel r False s = (a, s1)"
      by (cases "GetPeerConnectionChannel r False s") auto
    have i1: "registry_inv s1" using registry_inv_after_lookup [OF inv True g1] .
    have a1: "r \<in> set (allowed_remote_ids s1)"
      using GetPeerConnectionChannel_inv [OF g1] inv True by (auto simp add: registry_inv_def)
    let ?s3 = "erase_channel r (pcc_SetAbandoned a s1)"
    have i3: "registry_inv ?s3"
      using i1 by (simp add: registry_inv_erase pcc_SetAbandoned_def registry_inv_update_channel)
    have a3: "r \<in> set (allowed_remote_ids ?s3)"
      using a1 by (simp add: erase_channel_def pcc_SetAbandoned_def update_channel_def)
    obtain b s4 where g2: "GetPeerConnectionChannel r False ?s3 = (b, s4)"
      by (cases "GetPeerConnectionChannel r False ?s3") auto
    have i4: "registry_inv s4" using registry_inv_after_lookup [OF i3 a3 g2] .
    show ?thesis
      using g1 g2 i4
      by (simp add: republish_on_new_channel_def Let_def pcc_Publish_def
            registry_inv_record_call registry_inv_update_channel)
  qed
  obtain a s1 where g: "GetPeerConnectionChannel r False s = (a, s1)"
    by (cases "GetPeerConnectionChannel r False s") auto
  have i1: "registry_inv s1" using registry_inv_after_lookup [OF inv True g] .
  have a1: "r \<in> set (allowed_remote_ids s1)"
    using GetPeerConnectionChannel_inv [OF g] inv True by (auto simp add: registry_inv_def)
  show ?thesis
    using True inv g i1 a1
    by (auto simp add: signaling_task_body_def dispatch yield abandon republish
          split: option.splits)
qed

lemma registry_inv_step:
  assumes inv: "registry_inv s" and st: "step j op s = Inr s'"
  shows "registry_inv s'"
proof (cases op)
  case (OpAddAllowedRemoteId r)
  then show ?thesis
    using inv st by (fastforce simp add: AddAllowedRemoteId_def registry_inv_def split: if_splits)
next
  case (OpRemoveAllowedRemoteId r f g)
  show ?thesis
  proof (cases "r \<in> set (allowed_remote_ids s)")
    case True
    have "registry_inv (Stop r f g (s\<lparr>allowed_remote_ids := removeAll r (allowed_remote_ids s)\<rparr>))"
      by (rule registry_inv_Stop) (use inv in \<open>simp add: registry_inv_def\<close>)
    then show ?thesis
      using True st OpRemoveAllowedRemoteId by (simp add: RemoveAllowedRemoteId_def)
  next
    case False
    then show ?thesis
      using inv st OpRemoveAllowedRemoteId
      by (auto simp add: RemoveAllowedRemoteId_def registry_inv_post_failure)
  qed
next
  case (OpPublish r st' f g)
  then show ?thesis
    using inv st
    by (auto simp add: Publish_def registry_inv_post_failure pcc_Publish_def
          registry_inv_record_call registry_inv_update_channel
          dest: registry_inv_after_lookup split: prod.splits)
next
  case (OpSend r m f g)
  then show ?thesis
    using inv st
    by (auto simp add: Send_def Send5_def registry_inv_post_failure registry_inv_record_call
          dest: registry_inv_after_lookup split: prod.splits)
next
  case (OpSend5 r m b f g)
  then show ?thesis
    using inv st
    by (auto simp add: Send5_def registry_inv_post_failure registry_inv_record_call
          dest: registry_inv_after_lookup split: prod.splits)
next
  case (OpStop r f g)
  have "registry_inv (Stop r f g s)"
    by (rule registry_inv_Stop) (use inv in \<open>simp add: registry_inv_def\<close>)
  then show ?thesis
    using st OpStop by auto
next
  case (OpGetConnectionStats r f g)
  then show ?thesis
    using inv st
    by (auto simp add: GetConnectionStats_def registry_inv_post_failure registry_inv_record_call
          intro: registry_inv_after_lookup_created split: prod.splits)
next
  case (OpUnpublish r st' f g)
  then show ?thesis
    using inv st
    by (auto simp add: Unpublish_def registry_inv_post_failure registry_inv_record_call
          intro: registry_inv_after_lookup_created split: prod.splits)
next
  case (OpRemoveObserver ob)
  then show ?thesis
    using inv st by (auto simp add: RemoveObserver_def registry_inv_def split: sum.splits)
next
  case (OpOnStopped r)
  have "registry_inv (s\<lparr>removed_pc_channels := removed_pc_channels s @ [pc_channels s r]\<rparr>)"
    using inv by (simp add: registry_inv_def)
  then have "registry_inv (OnStopped r s)"
    by (simp add: OnStopped_def Let_def registry_inv_OnEvent registry_inv_erase)
  then show ?thesis
    using st OpOnStopped by auto
next
  case OpRunSignalingQueue
  have "\<And>q. registry_inv (s\<lparr>signaling_queue := q\<rparr>)"
    using inv by (simp add: registry_inv_def)
  then show ?thesis
    using OpRunSignalingQueue st inv
    by (auto simp add: run_signaling_queue_def signaling_task_def
          registry_inv_signaling_task_body split: list.splits if_splits)
next
  case OpRunEventQueue
  then show ?thesis
    using inv st
    by (auto simp add: run_event_queue_def record_call_def registry_inv_def split: list.splits)
qed (use inv st in \<open>auto simp add: Connect_def Connect_continuation_def Disconnect_def
       Publish_continuation_def SetLocalId_def OnSignalingMessage_def OnServerDisconnected_def
       SendSignalingMessage_def AddObserver_def OnMessageReceived_def OnStreamAdded_def
       OnEvent_def record_call_def registry_inv_def Let_def
       split: option.splits publish_continuation.splits if_splits\<close>)

lemma registry_inv_run:
  "registry_inv s \<Longrightarrow> run j ops s = Inr s' \<Longrightarrow> registry_inv s'"
  by (induction ops arbitrary: s) (auto split: sum.splits dest: registry_inv_step)

lemma registry_inv_reachable:
  "run j ops (P2PClient gaming) = Inr s \<Longrightarrow> registry_inv s"
  by (rule registry_inv_run [of "P2PClient gaming"]) (simp_all add: registry_inv_def P2PClient_def)

end
